theory Spec2Isabelle
  imports Complex_Main "HOL-Library.AList" "HOL-Library.Sublist"
begin

section \<open>Values and objects\<close>

text \<open>
  The server (\<^verbatim>\<open>src/server.js\<close>) handles JavaScript values: what \<^verbatim>\<open>express.json()\<close> parses
  out of a request body (null, booleans, numbers, strings, arrays, objects) and the two
  kinds of value that only the server and the store driver create, a \<^verbatim>\<open>Date\<close> and an
  \<^verbatim>\<open>ObjectId\<close>. A number is the value the parser hands to the route: a rational (every
  finite double is one; \<^verbatim>\<open>-0\<close> is \<^verbatim>\<open>0\<close>) or one of the two infinities, which the parser
  gives for a literal beyond the range of a double (\<open>JInf True\<close> is the negative one).
  A \<^verbatim>\<open>Date\<close> is its time in milliseconds, an \<^verbatim>\<open>ObjectId\<close> its 24 lower-case hexadecimal
  digits.

  An object is the list of its own properties in order. A JavaScript object has each key
  once; \<open>js_object\<close> says so.
\<close>

datatype jsval =
    JNull
  | JBool bool
  | JNum rat
  | JInf bool
  | JStr string
  | JArr "jsval list"
  | JObj "(string \<times> jsval) list"
  | JDate nat
  | JOid string

type_synonym obj = "(string \<times> jsval) list"

definition js_object :: "obj \<Rightarrow> bool" where
  "js_object b = distinct (map fst b)"

text \<open>The values a JSON text can denote: no \<^verbatim>\<open>Date\<close> and no \<^verbatim>\<open>ObjectId\<close> at any depth.\<close>

fun is_json :: "jsval \<Rightarrow> bool" where
  "is_json (JDate t) = False"
| "is_json (JOid i) = False"
| "is_json (JArr xs) = list_all is_json xs"
| "is_json (JObj fs) = list_all (\<lambda>p. is_json (snd p)) fs"
| "is_json v = True"

text \<open>Reading a property, \<^verbatim>\<open>o.k\<close>: \<open>None\<close> is \<^verbatim>\<open>undefined\<close>.\<close>

definition property :: "obj \<Rightarrow> string \<Rightarrow> jsval option" where
  "property b k = map_of b k"

text \<open>
  JavaScript truthiness, as \<^verbatim>\<open>!x\<close> tests it: \<^verbatim>\<open>undefined\<close>, \<^verbatim>\<open>null\<close>, \<^verbatim>\<open>false\<close>,
  \<^verbatim>\<open>0\<close> and the empty string are falsy; every other number and string, and every array,
  object, date and identifier, is truthy.
\<close>

fun truthy :: "jsval option \<Rightarrow> bool" where
  "truthy None = False"
| "truthy (Some JNull) = False"
| "truthy (Some (JBool b)) = b"
| "truthy (Some (JNum n)) = (n \<noteq> 0)"
| "truthy (Some (JInf neg)) = True"
| "truthy (Some (JStr s)) = (s \<noteq> [])"
| "truthy (Some (JArr xs)) = True"
| "truthy (Some (JObj fs)) = True"
| "truthy (Some (JDate t)) = True"
| "truthy (Some (JOid i)) = True"

section \<open>The identifier format\<close>

text \<open>
  \<^verbatim>\<open>ObjectId.isValid\<close> and \<^verbatim>\<open>new ObjectId\<close> belong to the store driver. On a string the
  driver accepts 24 hexadecimal digits, and the identifier it builds does not depend on
  the case of the digits. The theorems about the routes use \<open>ObjectId_isValid\<close> only as
  the test the routes call, never its definition.
\<close>

definition is_hex :: "char \<Rightarrow> bool" where
  "is_hex c = (c \<in> set ''0123456789abcdefABCDEF'')"

definition ObjectId_isValid :: "string \<Rightarrow> bool" where
  "ObjectId_isValid s = (length s = 24 \<and> list_all is_hex s)"

definition hex_lower :: "char \<Rightarrow> char" where
  "hex_lower c =
     (if c = CHR ''A'' then CHR ''a'' else if c = CHR ''B'' then CHR ''b''
      else if c = CHR ''C'' then CHR ''c'' else if c = CHR ''D'' then CHR ''d''
      else if c = CHR ''E'' then CHR ''e'' else if c = CHR ''F'' then CHR ''f''
      else c)"

definition ObjectId_new :: "string \<Rightarrow> jsval" where
  "ObjectId_new s = JOid (map hex_lower s)"

section \<open>The store\<close>

text \<open>
  \<^verbatim>\<open>db.collection('hidden_gems')\<close> is a list of documents in insertion order. The state
  keeps two more things that no route reads: the sequence of driver calls made so far, so
  that "no store call is made" can be stated, and \<open>faults\<close>, which says of every call,
  after every history, whether the store fails it for a reason of its own (the
  connection, a timeout, a limit on size or nesting, a rule of the server's version).
  Every driver call of a route sits in a \<^verbatim>\<open>try\<close>; a call that raises is a result
  \<open>Inl\<close>, which the route's \<^verbatim>\<open>catch\<close> answers with status 500.
\<close>

datatype store_call =
    FindAll
  | FindOne jsval
  | InsertOne obj
  | UpdateOne jsval obj
  | DeleteOne jsval

datatype store_error =
    StoreFault
  | KeyWithNul
  | ArrayAsId
  | DuplicateKey jsval
  | InvalidPath
  | PathConflict
  | CannotCreateField
  | ImmutableId

record db =
  hidden_gems :: "obj list"
  calls :: "store_call list"
  faults :: "store_call list \<Rightarrow> store_call \<Rightarrow> bool"

definition called :: "store_call \<Rightarrow> db \<Rightarrow> db" where
  "called c s = s\<lparr>calls := calls s @ [c]\<rparr>"

definition store_raises :: "db \<Rightarrow> store_call \<Rightarrow> bool" where
  "store_raises s c = faults s (calls s) c"

definition has_id :: "jsval \<Rightarrow> obj \<Rightarrow> bool" where
  "has_id i d = (property d ''_id'' = Some i)"

subsection \<open>What the driver cannot send\<close>

text \<open>
  The driver writes every document as BSON, where a key ends at the first zero byte:
  it raises on a key that contains one, at any depth, before anything reaches the store.
\<close>

fun nul_keys :: "jsval \<Rightarrow> bool" where
  "nul_keys (JArr xs) = list_ex nul_keys xs"
| "nul_keys (JObj fs) = list_ex (\<lambda>p. CHR 0x00 \<in> set (fst p) \<or> nul_keys (snd p)) fs"
| "nul_keys v = False"

subsection \<open>Reading and inserting\<close>

text \<open>
  \<^verbatim>\<open>find().toArray()\<close> returns every document; \<^verbatim>\<open>findOne({_id: i})\<close> returns the first
  document whose \<^verbatim>\<open>_id\<close> is \<open>i\<close>, or null.

  \<^verbatim>\<open>insertOne(doc)\<close> gives \<open>doc\<close> a fresh \<^verbatim>\<open>_id\<close> when it has none (or a null one), writing
  it into the caller's object. The store refuses an array as \<^verbatim>\<open>_id\<close> and an \<^verbatim>\<open>_id\<close> that a
  stored document already has; it keeps the document with \<^verbatim>\<open>_id\<close> as its first field. The
  fresh identifier is an input, as is the time of \<^verbatim>\<open>new Date()\<close> in the create route.
\<close>

definition find_toArray :: "db \<Rightarrow> (store_error + obj list) \<times> db" where
  "find_toArray s =
     (if store_raises s FindAll then Inl StoreFault else Inr (hidden_gems s), called FindAll s)"

definition findOne :: "jsval \<Rightarrow> db \<Rightarrow> (store_error + obj option) \<times> db" where
  "findOne i s =
     (if store_raises s (FindOne i) then Inl StoreFault
      else Inr (find (has_id i) (hidden_gems s)),
      called (FindOne i) s)"

fun is_array :: "jsval \<Rightarrow> bool" where
  "is_array (JArr xs) = True"
| "is_array v = False"

definition insertOne :: "string \<Rightarrow> obj \<Rightarrow> db \<Rightarrow> (store_error + jsval \<times> obj) \<times> db" where
  "insertOne pk doc s =
     (let s1 = called (InsertOne doc) s;
          doc1 = (case property doc ''_id'' of
                    None \<Rightarrow> AList.update ''_id'' (JOid pk) doc
                  | Some JNull \<Rightarrow> AList.update ''_id'' (JOid pk) doc
                  | Some v \<Rightarrow> doc);
          i = (case property doc ''_id'' of
                 None \<Rightarrow> JOid pk
               | Some JNull \<Rightarrow> JOid pk
               | Some v \<Rightarrow> v)
      in if store_raises s (InsertOne doc) then (Inl StoreFault, s1)
         else if nul_keys (JObj doc1) then (Inl KeyWithNul, s1)
         else if is_array i then (Inl ArrayAsId, s1)
         else if list_ex (has_id i) (hidden_gems s) then (Inl (DuplicateKey i), s1)
         else (Inr (i, doc1),
               s1\<lparr>hidden_gems := hidden_gems s @ [(''_id'', i) # AList.delete ''_id'' doc1]\<rparr>))"

subsection \<open>Updating\<close>

text \<open>
  \<^verbatim>\<open>updateOne({_id: i}, {$set: u})\<close>. Each key of \<open>u\<close> is a path: its components are the
  pieces between dots. The store refuses the update, whatever it would be applied to,
  when a component is empty or begins with \<^verbatim>\<open>$\<close>, or when one path is the beginning of
  another. Otherwise it takes the first document whose \<^verbatim>\<open>_id\<close> is \<open>i\<close> and sets the paths
  in it one after the other. A path that ends at a field sets the field, in place when
  the document has it and at the end otherwise. A longer path goes into the value of
  its first component: into an object, by field; into an array, by index, filling
  the array with nulls up to an index beyond its end; where nothing is, it makes the
  objects it needs; through any other value it cannot go, and the update is refused.
  An update that would change \<^verbatim>\<open>_id\<close> is refused. \<^verbatim>\<open>matchedCount\<close> counts the document
  found, \<^verbatim>\<open>modifiedCount\<close> counts it only when it has changed. An empty \<open>u\<close> changes
  nothing (the store of server version 5 and later).
\<close>

fun split_dots :: "string \<Rightarrow> string list" where
  "split_dots [] = [[]]"
| "split_dots (c # cs) =
     (if c = CHR ''.'' then [] # split_dots cs
      else case split_dots cs of
             [] \<Rightarrow> [[c]]
           | p # ps \<Rightarrow> (c # p) # ps)"

definition bad_component :: "string \<Rightarrow> bool" where
  "bad_component c = (case c of [] \<Rightarrow> True | x # xs \<Rightarrow> x = CHR ''$'')"

fun conflicting :: "string list list \<Rightarrow> bool" where
  "conflicting [] = False"
| "conflicting (p # ps) = (list_ex (\<lambda>q. prefix p q \<or> prefix q p) ps \<or> conflicting ps)"

definition set_refused :: "obj \<Rightarrow> store_error option" where
  "set_refused u =
     (if nul_keys (JObj u) then Some KeyWithNul
      else if list_ex (\<lambda>k. list_ex bad_component (split_dots k)) (map fst u) then Some InvalidPath
      else if conflicting (map (\<lambda>k. split_dots k) (map fst u)) then Some PathConflict
      else None)"

definition is_digit :: "char \<Rightarrow> bool" where
  "is_digit c = (c \<in> set ''0123456789'')"

definition array_index :: "string \<Rightarrow> nat option" where
  "array_index c =
     (case c of
        [] \<Rightarrow> None
      | x # xs \<Rightarrow>
          if list_all is_digit c \<and> (x \<noteq> CHR ''0'' \<or> xs = [])
          then Some (foldl (\<lambda>n y. 10 * n + (of_char y - 48)) 0 c)
          else None)"

fun nest :: "string list \<Rightarrow> jsval \<Rightarrow> jsval" where
  "nest [] v = v"
| "nest (c # cs) v = JObj [(c, nest cs v)]"

fun set_in :: "string list \<Rightarrow> jsval \<Rightarrow> jsval option \<Rightarrow> store_error + jsval" where
  "set_in [] v cur = Inr v"
| "set_in (c # cs) v None = Inr (JObj [(c, nest cs v)])"
| "set_in (c # cs) v (Some (JObj fs)) =
     (case set_in cs v (map_of fs c) of
        Inl e \<Rightarrow> Inl e
      | Inr w \<Rightarrow> Inr (JObj (AList.update c w fs)))"
| "set_in (c # cs) v (Some (JArr xs)) =
     (case array_index c of
        None \<Rightarrow> Inl CannotCreateField
      | Some n \<Rightarrow>
          if n < length xs
          then (case set_in cs v (Some (xs ! n)) of
                  Inl e \<Rightarrow> Inl e
                | Inr w \<Rightarrow> Inr (JArr (xs[n := w])))
          else Inr (JArr (xs @ replicate (n - length xs) JNull @ [nest cs v])))"
| "set_in (c # cs) v (Some w) = Inl CannotCreateField"

definition set_path :: "string list \<Rightarrow> jsval \<Rightarrow> obj \<Rightarrow> store_error + obj" where
  "set_path p v d =
     (case p of
        [] \<Rightarrow> Inl InvalidPath
      | c # cs \<Rightarrow>
          (case set_in cs v (map_of d c) of
             Inl e \<Rightarrow> Inl e
           | Inr w \<Rightarrow> Inr (AList.update c w d)))"

fun apply_set :: "obj \<Rightarrow> obj \<Rightarrow> store_error + obj" where
  "apply_set [] d = Inr d"
| "apply_set ((k, v) # u) d =
     (case set_path (split_dots k) v d of
        Inl e \<Rightarrow> Inl e
      | Inr d1 \<Rightarrow> apply_set u d1)"

definition updateOne :: "jsval \<Rightarrow> obj \<Rightarrow> db \<Rightarrow> (store_error + nat \<times> nat) \<times> db" where
  "updateOne i u s =
     (let s1 = called (UpdateOne i u) s
      in if store_raises s (UpdateOne i u) then (Inl StoreFault, s1)
         else case set_refused u of
           Some e \<Rightarrow> (Inl e, s1)
         | None \<Rightarrow>
            (case List.extract (has_id i) (hidden_gems s) of
               None \<Rightarrow> (Inr (0, 0), s1)
             | Some (before, d, after) \<Rightarrow>
                 (case apply_set u d of
                    Inl e \<Rightarrow> (Inl e, s1)
                  | Inr d1 \<Rightarrow>
                      if property d1 ''_id'' \<noteq> property d ''_id'' then (Inl ImmutableId, s1)
                      else (Inr (1, if d1 = d then 0 else 1),
                            s1\<lparr>hidden_gems := before @ d1 # after\<rparr>))))"

subsection \<open>Deleting\<close>

text \<open>\<^verbatim>\<open>deleteOne({_id: i})\<close> removes the first document whose \<^verbatim>\<open>_id\<close> is \<open>i\<close>.\<close>

definition deleteOne :: "jsval \<Rightarrow> db \<Rightarrow> (store_error + nat) \<times> db" where
  "deleteOne i s =
     (let s1 = called (DeleteOne i) s
      in if store_raises s (DeleteOne i) then (Inl StoreFault, s1)
         else case List.extract (has_id i) (hidden_gems s) of
           None \<Rightarrow> (Inr 0, s1)
         | Some (before, d, after) \<Rightarrow> (Inr 1, s1\<lparr>hidden_gems := before @ after\<rparr>))"

section \<open>The routes\<close>

text \<open>
  A response is the status given to \<^verbatim>\<open>res.status\<close> (200 when the route calls
  \<^verbatim>\<open>res.json\<close> alone) and the value given to \<^verbatim>\<open>res.json\<close>. Each route takes the state of
  the store and returns the response with the new state.
\<close>

record response =
  status :: nat
  json :: jsval

definition message :: "string \<Rightarrow> jsval" where
  "message m = JObj [(''message'', JStr m)]"

definition reply :: "nat \<Rightarrow> jsval \<Rightarrow> response" where
  "reply c v = \<lparr>status = c, json = v\<rparr>"

text \<open>\<^verbatim>\<open>app.get('/api/gems')\<close>\<close>

definition get_gems :: "db \<Rightarrow> response \<times> db" where
  "get_gems s =
     (case find_toArray s of
        (Inr gems, s1) \<Rightarrow> (reply 200 (JArr (map JObj gems)), s1)
      | (Inl e, s1) \<Rightarrow> (reply 500 (message ''Failed to fetch hidden gems''), s1))"

text \<open>\<^verbatim>\<open>app.get('/api/gems/:id')\<close>\<close>

definition get_gem :: "string \<Rightarrow> db \<Rightarrow> response \<times> db" where
  "get_gem gemId s =
     (if \<not> ObjectId_isValid gemId
      then (reply 400 (message ''Invalid Gem ID format''), s)
      else case findOne (ObjectId_new gemId) s of
             (Inr None, s1) \<Rightarrow> (reply 404 (message ''Hidden gem not found''), s1)
           | (Inr (Some gem), s1) \<Rightarrow> (reply 200 (JObj gem), s1)
           | (Inl e, s1) \<Rightarrow> (reply 500 (message ''Failed to fetch hidden gem''), s1))"

text \<open>
  \<^verbatim>\<open>app.post('/api/gems')\<close>; \<open>now\<close> is the time \<^verbatim>\<open>new Date()\<close> reads and \<open>pk\<close> the
  identifier the driver would generate.
\<close>

definition post_gem :: "nat \<Rightarrow> string \<Rightarrow> obj \<Rightarrow> db \<Rightarrow> response \<times> db" where
  "post_gem now pk newGem s =
     (if \<not> truthy (property newGem ''title'') \<or> \<not> truthy (property newGem ''description'')
         \<or> \<not> truthy (property newGem ''category'')
      then (reply 400 (message ''Missing required gem fields (title, description, category)''), s)
      else
        (let newGem1 = AList.update ''submissionDate'' (JDate now) newGem
         in case insertOne pk newGem1 s of
              (Inr (insertedId, newGem2), s1) \<Rightarrow>
                (reply 201 (JObj [(''message'', JStr ''Hidden gem added successfully''),
                                  (''insertedId'', insertedId),
                                  (''newGem'', JObj newGem2)]), s1)
            | (Inl e, s1) \<Rightarrow> (reply 500 (message ''Failed to add hidden gem''), s1)))"

text \<open>\<^verbatim>\<open>app.put('/api/gems/:id')\<close>\<close>

definition put_gem :: "string \<Rightarrow> obj \<Rightarrow> db \<Rightarrow> response \<times> db" where
  "put_gem gemId updatedGem s =
     (if \<not> ObjectId_isValid gemId
      then (reply 400 (message ''Invalid Gem ID format''), s)
      else
        (let updatedGem1 = AList.delete ''_id'' updatedGem
         in case updateOne (ObjectId_new gemId) updatedGem1 s of
              (Inr (matchedCount, modifiedCount), s1) \<Rightarrow>
                if matchedCount = 0
                then (reply 404 (message ''Hidden gem not found''), s1)
                else if modifiedCount = 0
                then (reply 200 (message ''No changes made to the hidden gem (data was identical)''), s1)
                else (reply 200 (message ''Hidden gem updated successfully''), s1)
            | (Inl e, s1) \<Rightarrow> (reply 500 (message ''Failed to update hidden gem''), s1)))"

text \<open>\<^verbatim>\<open>app.delete('/api/gems/:id')\<close>\<close>

definition delete_gem :: "string \<Rightarrow> db \<Rightarrow> response \<times> db" where
  "delete_gem gemId s =
     (if \<not> ObjectId_isValid gemId
      then (reply 400 (message ''Invalid Gem ID format''), s)
      else case deleteOne (ObjectId_new gemId) s of
             (Inr deletedCount, s1) \<Rightarrow>
               if deletedCount = 0
               then (reply 404 (message ''Hidden gem not found or already deleted''), s1)
               else (reply 200 (message ''Hidden gem deleted successfully''), s1)
           | (Inl e, s1) \<Rightarrow> (reply 500 (message ''Failed to delete hidden gem''), s1))"

text \<open>The store before any request, with no fault of its own to come.\<close>

definition empty_db :: db where
  "empty_db = \<lparr>hidden_gems = [], calls = [], faults = (\<lambda>h c. False)\<rparr>"

section \<open>Sequences of requests\<close>

text \<open>
  A creation or an update as a request, with the inputs the route reads, and the state it
  leaves; \<open>fold handle\<close> runs a sequence of them. \<open>gem_ids\<close> and \<open>gem_dates\<close> list the
  \<^verbatim>\<open>_id\<close> and the \<open>submissionDate\<close> of the stored records, in order.
\<close>

datatype request = Create nat string obj | Update string obj

fun handle :: "request \<Rightarrow> db \<Rightarrow> db" where
  "handle (Create now pk newGem) s = snd (post_gem now pk newGem s)"
| "handle (Update gemId updatedGem) s = snd (put_gem gemId updatedGem s)"

definition gem_ids :: "db \<Rightarrow> jsval option list" where
  "gem_ids s = map (\<lambda>d. property d ''_id'') (hidden_gems s)"

definition gem_dates :: "db \<Rightarrow> jsval option list" where
  "gem_dates s = map (\<lambda>d. property d ''submissionDate'') (hidden_gems s)"

section \<open>Bodies with plain field names\<close>

text \<open>
  A plain key is not empty, has no dot and does not begin with \<^verbatim>\<open>$\<close>: as a path it names
  one top-level field. A plain body is a JavaScript object whose keys are plain and
  which has no zero byte in a key at any depth. \<open>top_field\<close> is the first component of
  a key read as a path.
\<close>

definition plain_key :: "string \<Rightarrow> bool" where
  "plain_key k = (\<not> bad_component k \<and> CHR ''.'' \<notin> set k)"

definition plain_body :: "obj \<Rightarrow> bool" where
  "plain_body b = (js_object b \<and> list_all plain_key (map fst b) \<and> \<not> nul_keys (JObj b))"

definition top_field :: "string \<Rightarrow> string" where
  "top_field k = (case split_dots k of [] \<Rightarrow> [] | c # cs \<Rightarrow> c)"

text \<open>The merge of the fields of \<open>u\<close> into \<open>d\<close>, which is what \<^verbatim>\<open>$set\<close> does for plain keys.\<close>

definition set_fields :: "obj \<Rightarrow> obj \<Rightarrow> obj" where
  "set_fields u d = fold (\<lambda>(k, v). AList.update k v) u d"

section \<open>Example requests\<close>

text \<open>
  The payload of the scenario of the specification, the identifier the driver generates
  for it, the store after that one creation and the record it holds; the same payload
  with an \<^verbatim>\<open>_id\<close> of the client's own; a well-formed identifier of no record; the record as
  the fetch route sends it, in JSON; a key with a zero byte; and a second store, whose one
  record has a location.
\<close>

definition beach :: obj where
  "beach = [(''title'', JStr ''Hidden Beach''), (''description'', JStr ''Secluded cove''),
            (''category'', JStr ''Nature'')]"

definition beach_id :: string where
  "beach_id = ''65a1b2c3d4e5f60718293a4b''"

definition beach_db :: db where
  "beach_db = snd (post_gem 1700000000000 beach_id beach empty_db)"

definition stored_beach :: obj where
  "stored_beach = [(''_id'', JOid ''65a1b2c3d4e5f60718293a4b''),
                   (''title'', JStr ''Hidden Beach''), (''description'', JStr ''Secluded cove''),
                   (''category'', JStr ''Nature''), (''submissionDate'', JDate 1700000000000)]"

definition named_beach :: obj where
  "named_beach = (''_id'', JStr ''beach'') # beach"

definition other_id :: string where
  "other_id = ''65A1B2C3D4E5F60718293A4C''"

definition beach_json :: obj where
  "beach_json = [(''_id'', JStr ''65a1b2c3d4e5f60718293a4b''),
                 (''title'', JStr ''Hidden Beach''), (''description'', JStr ''Secluded cove''),
                 (''category'', JStr ''Nature''),
                 (''submissionDate'', JStr ''2023-11-14T22:13:20.000Z'')]"

definition nul_key :: string where
  "nul_key = [CHR ''n'', CHR 0x00]"

definition cove :: obj where
  "cove = beach @ [(''loc'', JObj [(''lat'', JNum 1), (''lng'', JNum 2)])]"

definition cove_db :: db where
  "cove_db = snd (post_gem 1700000000000 beach_id cove empty_db)"

section \<open>Objects, paths and the store operations\<close>

lemmas ev = post_gem_def get_gem_def put_gem_def delete_gem_def insertOne_def findOne_def
  updateOne_def deleteOne_def called_def store_raises_def has_id_def property_def
  set_refused_def bad_component_def set_path_def array_index_def is_digit_def
  ObjectId_isValid_def ObjectId_new_def is_hex_def hex_lower_def empty_db_def
  beach_def beach_id_def beach_db_def named_beach_def other_id_def nul_key_def
  cove_def cove_db_def extract_Nil_code extract_Cons_code Let_def

subsection \<open>Lists and objects\<close>


lemma find_Some_extract:
  "find P xs = Some d \<longleftrightarrow> (\<exists>ys zs. List.extract P xs = Some (ys, d, zs))"
  by (induction xs) (auto simp: extract_Nil_code extract_Cons_code split: option.splits)


lemma property_update: "property (AList.update k v b) k' = (if k' = k then Some v else property b k')"
  by (simp add: property_def update_conv')

lemma property_Cons: "property ((k, v) # b) k' = (if k' = k then Some v else property b k')"
  by (simp add: property_def)

lemma property_delete: "property (AList.delete k b) k' = (if k' = k then None else property b k')"
  by (simp add: property_def delete_conv')

lemma property_key: "(property b k = None) = (k \<notin> fst ` set b)"
  by (simp add: property_def map_of_eq_None_iff)

lemma keys_delete: "fst ` set (AList.delete k b) = fst ` set b - {k}"
  by (induction b) auto

lemma js_object_delete: "js_object b \<Longrightarrow> js_object (AList.delete k b)"
  by (simp add: js_object_def distinct_delete)

lemma id_first:
  assumes "property d ''_id'' = Some i"
  shows "property ((''_id'', i) # AList.delete ''_id'' d) k = property d k"
  using assms by (simp add: property_Cons property_delete)

subsection \<open>Keys with a zero byte\<close>

lemma nul_keys_obj:
  "nul_keys (JObj fs) = (\<exists>p \<in> set fs. CHR 0x00 \<in> set (fst p) \<or> nul_keys (snd p))"
  by (simp add: list_ex_iff)

lemma set_update_cases:
  "p \<in> set (AList.update k v b) \<Longrightarrow> p = (k, v) \<or> p \<in> set b"
  by (induction b) (auto split: if_splits)

lemma nul_keys_update:
  assumes "\<not> nul_keys (JObj b)" and "CHR 0x00 \<notin> set k" and "\<not> nul_keys v"
  shows "\<not> nul_keys (JObj (AList.update k v b))"
proof
  assume "nul_keys (JObj (AList.update k v b))"
  then obtain p where p: "p \<in> set (AList.update k v b)"
    "CHR 0x00 \<in> set (fst p) \<or> nul_keys (snd p)"
    unfolding nul_keys_obj by blast
  from set_update_cases [OF p(1)] show False
  proof
    assume "p = (k, v)"
    with p(2) assms(2,3) show False by simp
  next
    assume "p \<in> set b"
    with p(2) have "nul_keys (JObj b)" unfolding nul_keys_obj by blast
    with assms(1) show False by simp
  qed
qed

lemma nul_keys_delete:
  assumes "\<not> nul_keys (JObj b)"
  shows "\<not> nul_keys (JObj (AList.delete k b))"
proof -
  have "set (AList.delete k b) \<subseteq> set b" by (auto simp: AList.delete_eq)
  with assms show ?thesis unfolding nul_keys_obj by blast
qed

lemma nul_top_key:
  assumes "(k, v) \<in> set b" and "CHR 0x00 \<in> set k"
  shows "nul_keys (JObj b)"
  using assms unfolding nul_keys_obj by force

lemma nul_top_key_update:
  assumes "(k, v) \<in> set b" and "CHR 0x00 \<in> set k"
  shows "nul_keys (JObj (AList.update k' v' b))"
proof -
  from assms(1) have "k \<in> fst ` set (AList.update k' v' b)"
    by (simp add: dom_update) (metis fst_conv image_eqI)
  then obtain w where "(k, w) \<in> set (AList.update k' v' b)" by auto
  then show ?thesis using assms(2) by (rule nul_top_key)
qed

subsection \<open>Paths\<close>

lemma split_dots_plain: "CHR ''.'' \<notin> set k \<Longrightarrow> split_dots k = [k]"
  by (induction k) auto

lemma split_dots_nonempty: "split_dots k \<noteq> []"
  by (induction k) (auto split: list.splits)

lemma top_field_plain: "CHR ''.'' \<notin> set k \<Longrightarrow> top_field k = k"
  by (simp add: top_field_def split_dots_plain)

lemma set_path_single: "set_path [k] v d = Inr (AList.update k v d)"
  by (simp add: set_path_def)

lemma set_path_top:
  assumes "set_path p v d = Inr d1"
  shows "\<exists>c cs w. p = c # cs \<and> d1 = AList.update c w d"
  using assms by (auto simp: set_path_def split: list.splits sum.splits)

lemma set_path_other:
  assumes "set_path (split_dots k) v d = Inr d1" and "top_field k \<noteq> f"
  shows "property d1 f = property d f"
proof -
  from set_path_top [OF assms(1)] obtain c cs w
    where "split_dots k = c # cs" "d1 = AList.update c w d" by blast
  with assms(2) show ?thesis by (simp add: top_field_def property_update)
qed

lemma apply_set_other:
  assumes "apply_set u d = Inr d1" and "\<forall>k \<in> fst ` set u. top_field k \<noteq> f"
  shows "property d1 f = property d f"
  using assms
proof (induction u arbitrary: d)
  case Nil
  then show ?case by simp
next
  case (Cons p u)
  obtain k v where p: "p = (k, v)" by (cases p)
  from Cons.prems(1) obtain d2
    where s: "set_path (split_dots k) v d = Inr d2" and a: "apply_set u d2 = Inr d1"
    by (auto simp: p split: sum.splits)
  from Cons.prems(2) have "top_field k \<noteq> f" and "\<forall>k \<in> fst ` set u. top_field k \<noteq> f"
    by (simp_all add: p)
  with Cons.IH [OF a] set_path_other [OF s] show ?case by simp
qed

subsection \<open>Plain bodies\<close>

lemma set_fields_Nil: "set_fields [] d = d"
  by (simp add: set_fields_def)

lemma set_fields_Cons: "set_fields ((k, v) # u) d = set_fields u (AList.update k v d)"
  by (simp add: set_fields_def)

lemma set_fields_same:
  "(\<forall>(k, v) \<in> set u. property d k = Some v) \<Longrightarrow> set_fields u d = d"
  by (induction u) (auto simp: set_fields_Nil set_fields_Cons property_def update_triv)

lemma property_set_fields_other:
  "k \<notin> fst ` set u \<Longrightarrow> property (set_fields u d) k = property d k"
  by (induction u arbitrary: d) (auto simp: set_fields_Nil set_fields_Cons property_def update_conv')

lemma property_set_fields:
  "js_object u \<Longrightarrow> property (set_fields u d) k =
     (case property u k of None \<Rightarrow> property d k | Some v \<Rightarrow> Some v)"
proof (induction u arbitrary: d)
  case Nil
  then show ?case by (simp add: set_fields_Nil property_def)
next
  case (Cons p u)
  obtain k' v' where p: "p = (k', v')" by (cases p)
  from Cons.prems have d: "js_object u" and n: "k' \<notin> fst ` set u"
    by (auto simp: js_object_def p)
  show ?case
  proof (cases "k = k'")
    case True
    with n have "property u k = None" by (simp add: property_def map_of_eq_None_iff)
    with True n show ?thesis
      by (simp add: p set_fields_Cons property_set_fields_other property_update property_Cons)
  next
    case False
    then show ?thesis
      using Cons.IH [OF d, of "AList.update k' v' d"]
      by (simp add: p set_fields_Cons property_update property_Cons split: option.splits)
  qed
qed

lemma set_fields_changed:
  assumes "js_object u" and "(k, v) \<in> set u" and "property d k \<noteq> Some v"
  shows "set_fields u d \<noteq> d"
proof
  assume e: "set_fields u d = d"
  from assms(1,2) have "property u k = Some v" by (simp add: property_def js_object_def)
  with property_set_fields [OF assms(1), of d k] e assms(3) show False by simp
qed

lemma apply_set_plain:
  "list_all plain_key (map fst u) \<Longrightarrow> apply_set u d = Inr (set_fields u d)"
proof (induction u arbitrary: d)
  case Nil
  show ?case by (simp add: set_fields_Nil)
next
  case (Cons p u)
  obtain k v where p: "p = (k, v)" by (cases p)
  from Cons.prems have "plain_key k" and u: "list_all plain_key (map fst u)"
    by (simp_all add: p)
  then have k: "CHR ''.'' \<notin> set k" by (simp add: plain_key_def)
  show ?case
    by (simp add: p split_dots_plain [OF k] set_path_single Cons.IH [OF u] set_fields_Cons)
qed

lemma not_conflicting_plain:
  "distinct ks \<Longrightarrow> \<forall>k \<in> set ks. CHR ''.'' \<notin> set k \<Longrightarrow> \<not> conflicting (map split_dots ks)"
  by (induction ks) (auto simp: list_ex_iff split_dots_plain)

lemma set_refused_plain:
  assumes "plain_body u"
  shows "set_refused u = None"
proof -
  from assms have n: "\<not> nul_keys (JObj u)" and d: "distinct (map fst u)"
    and p: "\<forall>k \<in> set (map fst u). plain_key k"
    by (simp_all add: plain_body_def js_object_def list_all_iff)
  from p have b: "\<not> list_ex (\<lambda>k. list_ex bad_component (split_dots k)) (map fst u)"
    by (auto simp: list_ex_iff plain_key_def split_dots_plain)
  from p have "\<forall>k \<in> set (map fst u). CHR ''.'' \<notin> set k" by (simp add: plain_key_def)
  with d have c: "\<not> conflicting (map split_dots (map fst u))" by (rule not_conflicting_plain)
  from n b c show ?thesis unfolding set_refused_def by simp
qed

lemma plain_body_delete:
  assumes "plain_body b"
  shows "plain_body (AList.delete k b)"
proof -
  from assms have j: "js_object b" and p: "\<forall>k \<in> fst ` set b. plain_key k"
    and n: "\<not> nul_keys (JObj b)"
    by (simp_all add: plain_body_def list_all_iff)
  from p have "\<forall>k' \<in> fst ` set (AList.delete k b). plain_key k'" by (auto simp: keys_delete)
  then have "list_all plain_key (map fst (AList.delete k b))" by (simp add: list_all_iff)
  with js_object_delete [OF j] nul_keys_delete [OF n] show ?thesis
    unfolding plain_body_def by blast
qed

lemma plain_bodyD:
  assumes "plain_body b"
  shows "js_object b" and "list_all plain_key (map fst b)"
  using assms by (simp_all add: plain_body_def)

lemma stripped_same:
  assumes "\<forall>(k, v) \<in> set updatedGem. k \<noteq> ''_id'' \<longrightarrow> property d k = Some v"
  shows "set_fields (AList.delete ''_id'' updatedGem) d = d"
proof (rule set_fields_same)
  show "\<forall>(k, v) \<in> set (AList.delete ''_id'' updatedGem). property d k = Some v"
    using assms by (auto simp: AList.delete_eq)
qed

lemma stripped_changed:
  assumes "js_object updatedGem" and "(k, v) \<in> set updatedGem" and "k \<noteq> ''_id''"
    and "property d k \<noteq> Some v"
  shows "set_fields (AList.delete ''_id'' updatedGem) d \<noteq> d"
proof (rule set_fields_changed)
  show "js_object (AList.delete ''_id'' updatedGem)" using assms(1) by (rule js_object_delete)
  show "(k, v) \<in> set (AList.delete ''_id'' updatedGem)" using assms(2,3) by (simp add: AList.delete_eq)
  show "property d k \<noteq> Some v" by fact
qed

lemma property_stripped:
  assumes "js_object updatedGem"
  shows "property (set_fields (AList.delete ''_id'' updatedGem) d) k =
           (if k \<noteq> ''_id'' \<and> k \<in> fst ` set updatedGem then property updatedGem k else property d k)"
proof -
  have "property updatedGem k = None \<longleftrightarrow> k \<notin> fst ` set updatedGem"
    by (rule property_key)
  then show ?thesis
    using property_set_fields [OF js_object_delete [OF assms], of "''_id''" d k]
    by (auto simp: property_delete split: option.splits)
qed

lemma property_stripped_other:
  assumes "k = ''_id'' \<or> k \<notin> fst ` set updatedGem"
  shows "property (set_fields (AList.delete ''_id'' updatedGem) d) k = property d k"
  using assms by (intro property_set_fields_other) (auto simp: keys_delete)


subsection \<open>The store operations\<close>

lemma hidden_gems_called: "hidden_gems (called c s) = hidden_gems s"
  by (simp add: called_def)

lemma calls_called: "calls (called c s) = calls s @ [c]"
  by (simp add: called_def)

lemma insertOne_generated:
  assumes "property doc ''_id'' = None \<or> property doc ''_id'' = Some JNull"
  shows "insertOne pk doc s =
           (if store_raises s (InsertOne doc) then (Inl StoreFault, called (InsertOne doc) s)
            else if nul_keys (JObj (AList.update ''_id'' (JOid pk) doc))
            then (Inl KeyWithNul, called (InsertOne doc) s)
            else if list_ex (has_id (JOid pk)) (hidden_gems s)
            then (Inl (DuplicateKey (JOid pk)), called (InsertOne doc) s)
            else (Inr (JOid pk, AList.update ''_id'' (JOid pk) doc),
                  (called (InsertOne doc) s)
                    \<lparr>hidden_gems := hidden_gems s @
                       [(''_id'', JOid pk) # AList.delete ''_id'' (AList.update ''_id'' (JOid pk) doc)]\<rparr>))"
  using assms by (auto simp: insertOne_def Let_def)

lemma insertOne_supplied:
  assumes "property doc ''_id'' = Some v" and "v \<noteq> JNull"
  shows "insertOne pk doc s =
           (if store_raises s (InsertOne doc) then (Inl StoreFault, called (InsertOne doc) s)
            else if nul_keys (JObj doc) then (Inl KeyWithNul, called (InsertOne doc) s)
            else if is_array v then (Inl ArrayAsId, called (InsertOne doc) s)
            else if list_ex (has_id v) (hidden_gems s)
            then (Inl (DuplicateKey v), called (InsertOne doc) s)
            else (Inr (v, doc),
                  (called (InsertOne doc) s)
                    \<lparr>hidden_gems := hidden_gems s @ [(''_id'', v) # AList.delete ''_id'' doc]\<rparr>))"
  using assms by (cases v) (simp_all add: insertOne_def Let_def del: nul_keys.simps)

lemma insertOne_gems:
  "(\<exists>e. fst (insertOne pk doc s) = Inl e \<and> hidden_gems (snd (insertOne pk doc s)) = hidden_gems s)
   \<or> (\<exists>i doc1. fst (insertOne pk doc s) = Inr (i, doc1)
        \<and> hidden_gems (snd (insertOne pk doc s)) = hidden_gems s @ [(''_id'', i) # AList.delete ''_id'' doc1]
        \<and> property doc1 ''_id'' = Some i
        \<and> (\<forall>k. k \<noteq> ''_id'' \<longrightarrow> property doc1 k = property doc k))"
proof (cases "property doc ''_id'' = None \<or> property doc ''_id'' = Some JNull")
  case True
  show ?thesis
    by (simp add: insertOne_generated [OF True] hidden_gems_called property_update
        del: nul_keys.simps)
next
  case False
  then obtain v where v: "property doc ''_id'' = Some v" "v \<noteq> JNull" by auto
  show ?thesis
    by (simp add: insertOne_supplied [OF v] hidden_gems_called v(1) del: nul_keys.simps)
qed

lemma updateOne_calls: "calls (snd (updateOne i u s)) = calls s @ [UpdateOne i u]"
  by (simp add: updateOne_def Let_def calls_called split: option.splits sum.splits prod.splits)

lemma updateOne_shape:
  "(hidden_gems (snd (updateOne i u s)) = hidden_gems s
      \<and> fst (updateOne i u s) \<noteq> Inr (1, 1))
   \<or> (\<exists>before d after d1.
        List.extract (has_id i) (hidden_gems s) = Some (before, d, after)
        \<and> apply_set u d = Inr d1
        \<and> property d1 ''_id'' = property d ''_id''
        \<and> d1 \<noteq> d
        \<and> fst (updateOne i u s) = Inr (1, 1)
        \<and> hidden_gems (snd (updateOne i u s)) = before @ d1 # after)"
proof (cases "List.extract (has_id i) (hidden_gems s)")
  case None
  then show ?thesis
    by (simp add: updateOne_def Let_def hidden_gems_called split: option.splits)
next
  case (Some t)
  then obtain before d after
    where e: "List.extract (has_id i) (hidden_gems s) = Some (before, d, after)"
    by (cases t) auto
  then have h: "hidden_gems s = before @ d # after" by (simp add: extract_Some_iff)
  show ?thesis
    by (auto simp: updateOne_def Let_def hidden_gems_called e h [symmetric]
        split: option.splits sum.splits)
qed

lemma updateOne_error:
  assumes "fst (updateOne i u s) = Inl e"
  shows "snd (updateOne i u s) = called (UpdateOne i u) s"
  using assms
  by (auto simp: updateOne_def Let_def split: option.splits sum.splits prod.splits if_splits)


lemma updateOne_plain:
  assumes "plain_body u" and "''_id'' \<notin> fst ` set u" and "\<not> store_raises s (UpdateOne i u)"
  shows "updateOne i u s =
           (case List.extract (has_id i) (hidden_gems s) of
              None \<Rightarrow> (Inr (0, 0), called (UpdateOne i u) s)
            | Some (before, d, after) \<Rightarrow>
                (Inr (1, if set_fields u d = d then 0 else 1),
                 (called (UpdateOne i u) s)\<lparr>hidden_gems := before @ set_fields u d # after\<rparr>))"
  using assms(2,3)
  by (simp add: updateOne_def Let_def set_refused_plain [OF assms(1)]
      apply_set_plain [OF plain_bodyD(2) [OF assms(1)]] property_set_fields_other
      split: option.splits)

subsection \<open>The routes\<close>

lemma post_gem_accepted:
  assumes "truthy (property newGem ''title'')" and "truthy (property newGem ''description'')"
    and "truthy (property newGem ''category'')"
  shows "post_gem now pk newGem s =
     (case insertOne pk (AList.update ''submissionDate'' (JDate now) newGem) s of
        (Inr (insertedId, newGem2), s1) \<Rightarrow>
          (reply 201 (JObj [(''message'', JStr ''Hidden gem added successfully''),
                            (''insertedId'', insertedId),
                            (''newGem'', JObj newGem2)]), s1)
      | (Inl e, s1) \<Rightarrow> (reply 500 (message ''Failed to add hidden gem''), s1))"
  using assms by (simp add: post_gem_def)

lemma post_gem_gems:
  "(status (fst (post_gem now pk newGem s)) \<noteq> 201
      \<and> hidden_gems (snd (post_gem now pk newGem s)) = hidden_gems s)
   \<or> (\<exists>stored. status (fst (post_gem now pk newGem s)) = 201
         \<and> hidden_gems (snd (post_gem now pk newGem s)) = hidden_gems s @ [stored]
         \<and> property stored ''submissionDate'' = Some (JDate now))"
proof (cases "truthy (property newGem ''title'') \<and> truthy (property newGem ''description'')
    \<and> truthy (property newGem ''category'')")
  case True
  then have t: "truthy (property newGem ''title'')" "truthy (property newGem ''description'')"
    "truthy (property newGem ''category'')" by simp_all
  let ?stamped = "AList.update ''submissionDate'' (JDate now) newGem"
  from insertOne_gems [of pk ?stamped s] show ?thesis
  proof (elim disjE exE conjE)
    fix e
    assume "fst (insertOne pk ?stamped s) = Inl e"
      and "hidden_gems (snd (insertOne pk ?stamped s)) = hidden_gems s"
    then show ?thesis
      by (cases "insertOne pk ?stamped s") (simp add: post_gem_accepted [OF t] reply_def)
  next
    fix i doc1
    assume a: "fst (insertOne pk ?stamped s) = Inr (i, doc1)"
      "hidden_gems (snd (insertOne pk ?stamped s)) =
         hidden_gems s @ [(''_id'', i) # AList.delete ''_id'' doc1]"
      "property doc1 ''_id'' = Some i"
      "\<forall>k. k \<noteq> ''_id'' \<longrightarrow> property doc1 k = property ?stamped k"
    then have "property ((''_id'', i) # AList.delete ''_id'' doc1) ''submissionDate'' = Some (JDate now)"
      by (simp add: id_first property_update)
    with a(1,2) show ?thesis
      by (cases "insertOne pk ?stamped s") (simp add: post_gem_accepted [OF t] reply_def)
  qed
next
  case False
  then show ?thesis by (auto simp: post_gem_def reply_def)
qed

lemma put_gem_valid:
  assumes "ObjectId_isValid gemId"
  shows "put_gem gemId updatedGem s =
     (case updateOne (ObjectId_new gemId) (AList.delete ''_id'' updatedGem) s of
        (Inr (matchedCount, modifiedCount), s1) \<Rightarrow>
          if matchedCount = 0
          then (reply 404 (message ''Hidden gem not found''), s1)
          else if modifiedCount = 0
          then (reply 200 (message ''No changes made to the hidden gem (data was identical)''), s1)
          else (reply 200 (message ''Hidden gem updated successfully''), s1)
      | (Inl e, s1) \<Rightarrow> (reply 500 (message ''Failed to update hidden gem''), s1))"
  using assms by (simp add: put_gem_def)

lemma put_gem_state:
  "snd (put_gem gemId updatedGem s) =
     (if ObjectId_isValid gemId
      then snd (updateOne (ObjectId_new gemId) (AList.delete ''_id'' updatedGem) s) else s)"
  by (simp add: put_gem_def split: prod.splits sum.splits)

lemma put_gem_shape:
  "hidden_gems (snd (put_gem gemId updatedGem s)) = hidden_gems s
   \<or> (\<exists>before d after d1.
        hidden_gems s = before @ d # after
        \<and> apply_set (AList.delete ''_id'' updatedGem) d = Inr d1
        \<and> property d1 ''_id'' = property d ''_id''
        \<and> hidden_gems (snd (put_gem gemId updatedGem s)) = before @ d1 # after)"
proof (cases "ObjectId_isValid gemId")
  case False
  then show ?thesis by (simp add: put_gem_state)
next
  case True
  from updateOne_shape [of "ObjectId_new gemId" "AList.delete ''_id'' updatedGem" s]
  show ?thesis
    by (auto simp: put_gem_state True extract_Some_iff)
qed



lemma put_gem_plain_matched:
  assumes "ObjectId_isValid gemId" and "plain_body updatedGem"
    and "\<not> store_raises s (UpdateOne (ObjectId_new gemId) (AList.delete ''_id'' updatedGem))"
    and "List.extract (has_id (ObjectId_new gemId)) (hidden_gems s) = Some (before, d, after)"
  shows "put_gem gemId updatedGem s =
           (reply 200 (message (if set_fields (AList.delete ''_id'' updatedGem) d = d
               then ''No changes made to the hidden gem (data was identical)''
               else ''Hidden gem updated successfully'')),
            (called (UpdateOne (ObjectId_new gemId) (AList.delete ''_id'' updatedGem)) s)
              \<lparr>hidden_gems := before @ set_fields (AList.delete ''_id'' updatedGem) d # after\<rparr>)"
proof -
  have p: "plain_body (AList.delete ''_id'' updatedGem)" using assms(2) by (rule plain_body_delete)
  have n: "''_id'' \<notin> fst ` set (AList.delete ''_id'' updatedGem)" by (simp add: keys_delete)
  show ?thesis
    by (simp add: put_gem_valid [OF assms(1)] updateOne_plain [OF p n assms(3)] assms(4))
qed


lemma put_gem_keeps_ids: "gem_ids (snd (put_gem gemId updatedGem s)) = gem_ids s"
  using put_gem_shape [of gemId updatedGem s] by (auto simp: gem_ids_def)

lemma put_gem_call:
  assumes "ObjectId_isValid gemId"
  shows "calls (snd (put_gem gemId updatedGem s)) =
           calls s @ [UpdateOne (ObjectId_new gemId) (AList.delete ''_id'' updatedGem)]"
  using assms by (simp add: put_gem_state updateOne_calls)

lemma handle_keeps_ids: "prefix (gem_ids s) (gem_ids (handle r s))"
proof (cases r)
  case (Create now pk newGem)
  then show ?thesis
    using post_gem_gems [of now pk newGem s] by (auto simp: gem_ids_def)
next
  case (Update gemId updatedGem)
  then show ?thesis by (simp add: put_gem_keeps_ids)
qed

lemma fold_handle_keeps_ids: "prefix (gem_ids s) (gem_ids (fold handle rs s))"
proof (induction rs arbitrary: s)
  case Nil
  show ?case by simp
next
  case (Cons r rs)
  have "prefix (gem_ids s) (gem_ids (handle r s))" by (rule handle_keeps_ids)
  also have "prefix (gem_ids (handle r s)) (gem_ids (fold handle rs (handle r s)))"
    by (rule Cons.IH)
  finally show ?case by simp
qed

lemma get_gem_found:
  assumes "ObjectId_isValid gemId" and "\<not> store_raises s (FindOne (ObjectId_new gemId))"
    and "find (has_id (ObjectId_new gemId)) (hidden_gems s) = Some d"
  shows "get_gem gemId s = (reply 200 (JObj d), called (FindOne (ObjectId_new gemId)) s)"
  using assms by (simp add: get_gem_def findOne_def)

lemma get_gem_gems: "hidden_gems (snd (get_gem gemId s)) = hidden_gems s"
  by (simp add: get_gem_def findOne_def called_def split: option.splits)

lemma delete_gem_gems: "subseq (hidden_gems (snd (delete_gem gemId s))) (hidden_gems s)"
proof (cases "List.extract (has_id (ObjectId_new gemId)) (hidden_gems s)")
  case None
  then show ?thesis
    by (simp add: delete_gem_def deleteOne_def called_def Let_def)
next
  case (Some t)
  then obtain before d after
    where e: "List.extract (has_id (ObjectId_new gemId)) (hidden_gems s) = Some (before, d, after)"
    by (cases t) auto
  then have h: "hidden_gems s = before @ d # after" by (simp add: extract_Some_iff)
  have "subseq (before @ after) (before @ d # after)"
    by (intro list_emb_append_mono) (simp_all add: list_emb_Cons)
  with e h show ?thesis
    by (simp add: delete_gem_def deleteOne_def called_def Let_def)
qed



lemma beach_db_gems: "hidden_gems beach_db = [stored_beach]"
  by (simp add: ev stored_beach_def)

lemma beach_db_quiet: "\<not> store_raises beach_db c"
  by (simp add: ev)

lemma empty_db_quiet: "\<not> store_raises empty_db c"
  by (simp add: ev)

lemma beach_id_valid: "ObjectId_isValid beach_id" "ObjectId_new beach_id = JOid beach_id"
  by (simp_all add: ev)


lemma find_beach: "find (has_id (ObjectId_new beach_id)) (hidden_gems beach_db) = Some stored_beach"
  by (simp add: ev stored_beach_def)


lemma beach_truthy: "truthy (property beach ''title'')" "truthy (property beach ''description'')"
  "truthy (property beach ''category'')"
  by (simp_all add: beach_def property_def)

section \<open>Rejected requests\<close>

text \<open>
  C4. A creation payload in which \<open>title\<close>, \<open>description\<close> or \<open>category\<close> is missing, or is
  the empty string, is answered with status 400 and the message that names the three
  required fields; the state of the store is the one before the request: nothing is
  persisted and no driver call is made.
\<close>

theorem create_missing_field_rejected:
  assumes "k \<in> {''title'', ''description'', ''category''}"
    and "property newGem k = None \<or> property newGem k = Some (JStr [])"
  shows "post_gem now pk newGem s =
           (reply 400 (message ''Missing required gem fields (title, description, category)''), s)"
proof -
  from assms(2) have "\<not> truthy (property newGem k)" by auto
  with assms(1) show ?thesis by (auto simp: post_gem_def)
qed

theorem create_missing_field_rejected_witness:
  "post_gem 1700000000000 ''65a1b2c3d4e5f60718293a4b''
     [(''title'', JStr ''Hidden Beach''), (''description'', JStr []), (''category'', JStr ''Nature'')]
     empty_db
   = (reply 400 (message ''Missing required gem fields (title, description, category)''), empty_db)
   \<and> post_gem 1700000000000 ''65a1b2c3d4e5f60718293a4b''
     [(''title'', JStr ''Hidden Beach''), (''description'', JStr ''Secluded cove'')]
     empty_db
   = (reply 400 (message ''Missing required gem fields (title, description, category)''), empty_db)"
  using create_missing_field_rejected [of "''description''"
      "[(''title'', JStr ''Hidden Beach''), (''description'', JStr []), (''category'', JStr ''Nature'')]"
      1700000000000 "''65a1b2c3d4e5f60718293a4b''" empty_db]
    create_missing_field_rejected [of "''category''"
      "[(''title'', JStr ''Hidden Beach''), (''description'', JStr ''Secluded cove'')]"
      1700000000000 "''65a1b2c3d4e5f60718293a4b''" empty_db]
  by (simp add: property_def)

text \<open>
  C5. When the identifier of the path does not pass \<^verbatim>\<open>ObjectId.isValid\<close>, get, update and
  delete each answer 400 "Invalid Gem ID format" and return the state they were given:
  no driver call is recorded and no record changes.
\<close>

theorem invalid_id_rejected:
  assumes "\<not> ObjectId_isValid gemId"
  shows "get_gem gemId s = (reply 400 (message ''Invalid Gem ID format''), s)
       \<and> put_gem gemId updatedGem s = (reply 400 (message ''Invalid Gem ID format''), s)
       \<and> delete_gem gemId s = (reply 400 (message ''Invalid Gem ID format''), s)"
  using assms by (simp add: get_gem_def put_gem_def delete_gem_def)

theorem invalid_id_rejected_witness:
  "\<not> ObjectId_isValid ''not-an-id''
   \<and> get_gem ''not-an-id'' empty_db = (reply 400 (message ''Invalid Gem ID format''), empty_db)
   \<and> put_gem ''not-an-id'' [(''title'', JStr ''x'')] empty_db
       = (reply 400 (message ''Invalid Gem ID format''), empty_db)
   \<and> delete_gem ''not-an-id'' empty_db = (reply 400 (message ''Invalid Gem ID format''), empty_db)"
proof -
  have h: "\<not> ObjectId_isValid ''not-an-id''" by (simp add: ObjectId_isValid_def)
  show ?thesis
    using h invalid_id_rejected [OF h, of empty_db "[(''title'', JStr ''x'')]"] by simp
qed





section \<open>Creation\<close>

lemma stamped_no_nul:
  assumes "\<not> nul_keys (JObj newGem)"
  shows "\<not> nul_keys (JObj (AList.update ''submissionDate'' (JDate now) newGem))"
    and "\<not> nul_keys (JObj (AList.update ''_id'' (JOid pk)
            (AList.update ''submissionDate'' (JDate now) newGem)))"
proof -
  show 1: "\<not> nul_keys (JObj (AList.update ''submissionDate'' (JDate now) newGem))"
    using assms by (rule nul_keys_update) simp_all
  show "\<not> nul_keys (JObj (AList.update ''_id'' (JOid pk)
            (AList.update ''submissionDate'' (JDate now) newGem)))"
    using 1 by (rule nul_keys_update) simp_all
qed

lemma post_gem_nul:
  assumes "truthy (property newGem ''title'')" and "truthy (property newGem ''description'')"
    and "truthy (property newGem ''category'')"
    and "(k, v) \<in> set newGem" and "CHR 0x00 \<in> set k"
  shows "fst (post_gem now pk newGem s) = reply 500 (message ''Failed to add hidden gem'')"
proof -
  let ?stamped = "AList.update ''submissionDate'' (JDate now) newGem"
  have "k \<noteq> ''submissionDate''" using assms(5) by auto
  with assms(4) have m: "(k, v) \<in> set ?stamped"
    by (induction newGem) auto
  then have 1: "nul_keys (JObj ?stamped)" using assms(5) by (rule nul_top_key)
  have 2: "nul_keys (JObj (AList.update ''_id'' (JOid pk) ?stamped))"
    using m assms(5) by (rule nul_top_key_update)
  show ?thesis
  proof (cases "property ?stamped ''_id'' = None \<or> property ?stamped ''_id'' = Some JNull")
    case True
    show ?thesis
      using 2 by (simp add: post_gem_accepted [OF assms(1-3)] insertOne_generated [OF True]
          del: nul_keys.simps)
  next
    case False
    then obtain w where w: "property ?stamped ''_id'' = Some w" "w \<noteq> JNull" by auto
    show ?thesis
      using 1 by (simp add: post_gem_accepted [OF assms(1-3)] insertOne_supplied [OF w]
          del: nul_keys.simps)
  qed
qed

text \<open>
  C1, as the code has it. A payload whose \<open>title\<close>, \<open>description\<close> and \<open>category\<close> are
  truthy is stamped with \<open>submissionDate = now\<close>, whatever \<open>submissionDate\<close> it carried,
  and handed to the store. The record's identifier \<open>i\<close> is the driver's fresh one when the
  payload has no \<^verbatim>\<open>_id\<close> (or a null one), and the payload's own \<^verbatim>\<open>_id\<close> otherwise. When the
  store takes the document (no key with a zero byte, \<open>i\<close> not an array, no stored record
  with \<open>i\<close>, no fault of the store's own), the answer is 201 with \<open>insertedId = i\<close> and
  the complete object \<open>doc\<close>, and one record with the fields of \<open>doc\<close> is appended to the
  collection; \<open>doc\<close> agrees with the payload on every field but \<^verbatim>\<open>_id\<close> and
  \<open>submissionDate\<close>. When a stored record already has \<open>i\<close>, or a key of the payload has
  a zero byte, the answer is 500. Whenever the answer is not 201 the collection is
  unchanged.
\<close>

theorem create_valid_payload:
  assumes "truthy (property newGem ''title'')" and "truthy (property newGem ''description'')"
    and "truthy (property newGem ''category'')"
  shows "(\<exists>i doc.
      (i = JOid pk \<and> (property newGem ''_id'' = None \<or> property newGem ''_id'' = Some JNull)
       \<or> i \<noteq> JNull \<and> property newGem ''_id'' = Some i)
    \<and> property doc ''_id'' = Some i
    \<and> property doc ''submissionDate'' = Some (JDate now)
    \<and> (\<forall>k. k \<noteq> ''_id'' \<and> k \<noteq> ''submissionDate'' \<longrightarrow> property doc k = property newGem k)
    \<and> (\<not> store_raises s (InsertOne (AList.update ''submissionDate'' (JDate now) newGem))
        \<and> \<not> nul_keys (JObj newGem) \<and> \<not> is_array i
        \<and> \<not> list_ex (has_id i) (hidden_gems s) \<longrightarrow>
          fst (post_gem now pk newGem s) =
            reply 201 (JObj [(''message'', JStr ''Hidden gem added successfully''),
                             (''insertedId'', i), (''newGem'', JObj doc)])
        \<and> (\<exists>stored. hidden_gems (snd (post_gem now pk newGem s)) = hidden_gems s @ [stored]
              \<and> (\<forall>k. property stored k = property doc k)))
    \<and> (list_ex (has_id i) (hidden_gems s) \<longrightarrow>
          fst (post_gem now pk newGem s) = reply 500 (message ''Failed to add hidden gem'')))
   \<and> ((k0, v0) \<in> set newGem \<and> CHR 0x00 \<in> set k0 \<longrightarrow>
          fst (post_gem now pk newGem s) = reply 500 (message ''Failed to add hidden gem''))
   \<and> (status (fst (post_gem now pk newGem s)) \<noteq> 201 \<longrightarrow>
          hidden_gems (snd (post_gem now pk newGem s)) = hidden_gems s)"
proof (intro conjI)
  let ?stamped = "AList.update ''submissionDate'' (JDate now) newGem"
  let ?post = "post_gem now pk newGem s"
  have id: "property ?stamped ''_id'' = property newGem ''_id''"
    by (simp add: property_update)
  show "(k0, v0) \<in> set newGem \<and> CHR 0x00 \<in> set k0 \<longrightarrow>
          fst ?post = reply 500 (message ''Failed to add hidden gem'')"
    using post_gem_nul [OF assms] by blast
  show "status (fst ?post) \<noteq> 201 \<longrightarrow> hidden_gems (snd ?post) = hidden_gems s"
    using post_gem_gems [of now pk newGem s] by auto
  show "\<exists>i doc.
      (i = JOid pk \<and> (property newGem ''_id'' = None \<or> property newGem ''_id'' = Some JNull)
       \<or> i \<noteq> JNull \<and> property newGem ''_id'' = Some i)
    \<and> property doc ''_id'' = Some i
    \<and> property doc ''submissionDate'' = Some (JDate now)
    \<and> (\<forall>k. k \<noteq> ''_id'' \<and> k \<noteq> ''submissionDate'' \<longrightarrow> property doc k = property newGem k)
    \<and> (\<not> store_raises s (InsertOne ?stamped)
        \<and> \<not> nul_keys (JObj newGem) \<and> \<not> is_array i
        \<and> \<not> list_ex (has_id i) (hidden_gems s) \<longrightarrow>
          fst ?post =
            reply 201 (JObj [(''message'', JStr ''Hidden gem added successfully''),
                             (''insertedId'', i), (''newGem'', JObj doc)])
        \<and> (\<exists>stored. hidden_gems (snd ?post) = hidden_gems s @ [stored]
              \<and> (\<forall>k. property stored k = property doc k)))
    \<and> (list_ex (has_id i) (hidden_gems s) \<longrightarrow>
          fst ?post = reply 500 (message ''Failed to add hidden gem''))"
  proof (cases "property newGem ''_id'' = None \<or> property newGem ''_id'' = Some JNull")
    case True
    let ?doc = "AList.update ''_id'' (JOid pk) ?stamped"
    let ?stored = "(''_id'', JOid pk) # AList.delete ''_id'' ?doc"
    from True have ins: "property ?stamped ''_id'' = None \<or> property ?stamped ''_id'' = Some JNull"
      by (simp add: id)
    have d: "property ?doc ''_id'' = Some (JOid pk)"
      "property ?doc ''submissionDate'' = Some (JDate now)"
      "\<forall>k. k \<noteq> ''_id'' \<and> k \<noteq> ''submissionDate'' \<longrightarrow> property ?doc k = property newGem k"
      by (simp_all add: property_update)
    have st: "\<forall>k. property ?stored k = property ?doc k"
      using d(1) by (simp add: id_first)
    have ok: "\<not> store_raises s (InsertOne ?stamped)
        \<and> \<not> nul_keys (JObj newGem) \<and> \<not> is_array (JOid pk)
        \<and> \<not> list_ex (has_id (JOid pk)) (hidden_gems s) \<longrightarrow>
          fst ?post =
            reply 201 (JObj [(''message'', JStr ''Hidden gem added successfully''),
                             (''insertedId'', JOid pk), (''newGem'', JObj ?doc)])
        \<and> hidden_gems (snd ?post) = hidden_gems s @ [?stored]"
      using stamped_no_nul(2) [of newGem pk now]
      by (simp add: post_gem_accepted [OF assms] insertOne_generated [OF ins] hidden_gems_called
          del: nul_keys.simps)
    have dup: "list_ex (has_id (JOid pk)) (hidden_gems s) \<longrightarrow>
          fst ?post = reply 500 (message ''Failed to add hidden gem'')"
      by (simp add: post_gem_accepted [OF assms] insertOne_generated [OF ins] del: nul_keys.simps)
    from True d st ok dup show ?thesis by blast
  next
    case False
    then obtain v where v: "property newGem ''_id'' = Some v" "v \<noteq> JNull" by auto
    let ?stored = "(''_id'', v) # AList.delete ''_id'' ?stamped"
    from v have ins: "property ?stamped ''_id'' = Some v" by (simp add: id)
    have d: "property ?stamped ''_id'' = Some v"
      "property ?stamped ''submissionDate'' = Some (JDate now)"
      "\<forall>k. k \<noteq> ''_id'' \<and> k \<noteq> ''submissionDate'' \<longrightarrow> property ?stamped k = property newGem k"
      by (simp_all add: property_update v)
    have st: "\<forall>k. property ?stored k = property ?stamped k"
      using d(1) by (simp add: id_first)
    have ok: "\<not> store_raises s (InsertOne ?stamped)
        \<and> \<not> nul_keys (JObj newGem) \<and> \<not> is_array v
        \<and> \<not> list_ex (has_id v) (hidden_gems s) \<longrightarrow>
          fst ?post =
            reply 201 (JObj [(''message'', JStr ''Hidden gem added successfully''),
                             (''insertedId'', v), (''newGem'', JObj ?stamped)])
        \<and> hidden_gems (snd ?post) = hidden_gems s @ [?stored]"
      using stamped_no_nul(1) [of newGem now]
      by (simp add: post_gem_accepted [OF assms] insertOne_supplied [OF ins v(2)]
          hidden_gems_called del: nul_keys.simps)
    have dup: "list_ex (has_id v) (hidden_gems s) \<longrightarrow>
          fst ?post = reply 500 (message ''Failed to add hidden gem'')"
      by (simp add: post_gem_accepted [OF assms] insertOne_supplied [OF ins v(2)]
          del: nul_keys.simps)
    from v d st ok dup show ?thesis by blast
  qed
qed

theorem create_valid_payload_witness:
  "truthy (property beach ''title'') \<and> truthy (property beach ''description'')
   \<and> truthy (property beach ''category'')
   \<and> (\<exists>doc. property doc ''_id'' = Some (JOid beach_id)
        \<and> property doc ''submissionDate'' = Some (JDate 1700000000000)
        \<and> fst (post_gem 1700000000000 beach_id beach empty_db) =
              reply 201 (JObj [(''message'', JStr ''Hidden gem added successfully''),
                               (''insertedId'', JOid beach_id), (''newGem'', JObj doc)])
        \<and> (\<exists>stored. hidden_gems (snd (post_gem 1700000000000 beach_id beach empty_db)) = [stored]
              \<and> (\<forall>k. property stored k = property doc k)))"
proof -
  have n: "property beach ''_id'' = None" "\<not> nul_keys (JObj beach)"
    by (simp_all add: beach_def property_def)
  have e: "hidden_gems empty_db = []" by (simp add: empty_db_def)
  note th = create_valid_payload [OF beach_truthy, where pk = beach_id and now = 1700000000000
      and s = empty_db and ?k0.0 = "[]" and ?v0.0 = JNull]
  from th [THEN conjunct1] show ?thesis
  proof (elim exE conjE)
    fix i doc
    assume a1: "i = JOid beach_id \<and> (property beach ''_id'' = None \<or> property beach ''_id'' = Some JNull)
       \<or> i \<noteq> JNull \<and> property beach ''_id'' = Some i"
      and a2: "property doc ''_id'' = Some i"
      and a3: "property doc ''submissionDate'' = Some (JDate 1700000000000)"
      and a4: "\<not> store_raises empty_db (InsertOne (AList.update ''submissionDate'' (JDate 1700000000000) beach))
        \<and> \<not> nul_keys (JObj beach) \<and> \<not> is_array i
        \<and> \<not> list_ex (has_id i) (hidden_gems empty_db) \<longrightarrow>
          fst (post_gem 1700000000000 beach_id beach empty_db) =
            reply 201 (JObj [(''message'', JStr ''Hidden gem added successfully''),
                             (''insertedId'', i), (''newGem'', JObj doc)])
        \<and> (\<exists>stored. hidden_gems (snd (post_gem 1700000000000 beach_id beach empty_db)) =
                 hidden_gems empty_db @ [stored]
              \<and> (\<forall>k. property stored k = property doc k))"
    from a1 n(1) have i: "i = JOid beach_id" by simp
    from a4 n(2) empty_db_quiet
    have r: "fst (post_gem 1700000000000 beach_id beach empty_db) =
            reply 201 (JObj [(''message'', JStr ''Hidden gem added successfully''),
                             (''insertedId'', JOid beach_id), (''newGem'', JObj doc)])
        \<and> (\<exists>stored. hidden_gems (snd (post_gem 1700000000000 beach_id beach empty_db)) = [stored]
              \<and> (\<forall>k. property stored k = property doc k))"
      by (simp add: i e)
    from a2 a3 r have "property doc ''_id'' = Some (JOid beach_id)
        \<and> property doc ''submissionDate'' = Some (JDate 1700000000000)
        \<and> fst (post_gem 1700000000000 beach_id beach empty_db) =
              reply 201 (JObj [(''message'', JStr ''Hidden gem added successfully''),
                               (''insertedId'', JOid beach_id), (''newGem'', JObj doc)])
        \<and> (\<exists>stored. hidden_gems (snd (post_gem 1700000000000 beach_id beach empty_db)) = [stored]
              \<and> (\<forall>k. property stored k = property doc k))"
      by (simp only: i) 
    then have "\<exists>doc. property doc ''_id'' = Some (JOid beach_id)
        \<and> property doc ''submissionDate'' = Some (JDate 1700000000000)
        \<and> fst (post_gem 1700000000000 beach_id beach empty_db) =
              reply 201 (JObj [(''message'', JStr ''Hidden gem added successfully''),
                               (''insertedId'', JOid beach_id), (''newGem'', JObj doc)])
        \<and> (\<exists>stored. hidden_gems (snd (post_gem 1700000000000 beach_id beach empty_db)) = [stored]
              \<and> (\<forall>k. property stored k = property doc k))"
      by (rule exI)
    with beach_truthy show ?thesis by (intro conjI)
  qed
qed

text \<open>
  C1 as stated fails: the payload of the scenario with an \<^verbatim>\<open>_id\<close> of the client's own has
  the three required fields; it is created once with status 201 and \<open>insertedId\<close> the
  client's value, not a generated one, and posting it a second time is answered 500,
  with nothing more stored.
\<close>

theorem create_valid_payload_counterexample:
  "truthy (property named_beach ''title'') \<and> truthy (property named_beach ''description'')
   \<and> truthy (property named_beach ''category'')
   \<and> fst (post_gem 1700000000000 beach_id named_beach empty_db) =
       reply 201 (JObj [(''message'', JStr ''Hidden gem added successfully''),
                        (''insertedId'', JStr ''beach''),
                        (''newGem'', JObj [(''_id'', JStr ''beach''), (''title'', JStr ''Hidden Beach''),
                           (''description'', JStr ''Secluded cove''), (''category'', JStr ''Nature''),
                           (''submissionDate'', JDate 1700000000000)])])
   \<and> fst (post_gem 1700000000001 ''65a1b2c3d4e5f60718293a4c'' named_beach
         (snd (post_gem 1700000000000 beach_id named_beach empty_db))) =
       reply 500 (message ''Failed to add hidden gem'')
   \<and> hidden_gems (snd (post_gem 1700000000001 ''65a1b2c3d4e5f60718293a4c'' named_beach
         (snd (post_gem 1700000000000 beach_id named_beach empty_db)))) =
       [[(''_id'', JStr ''beach''), (''title'', JStr ''Hidden Beach''),
         (''description'', JStr ''Secluded cove''), (''category'', JStr ''Nature''),
         (''submissionDate'', JDate 1700000000000)]]"
  by (simp add: ev)

text \<open>
  C10. The required-field check is a truthiness test. The answer is 400 exactly when one
  of \<open>title\<close>, \<open>description\<close>, \<open>category\<close> is falsy (absent counts as falsy); then the
  response is the fixed message and the state is untouched; and a required field that is
  present with the value \<^verbatim>\<open>""\<close>, \<^verbatim>\<open>0\<close>, \<^verbatim>\<open>false\<close> or \<^verbatim>\<open>null\<close> gives the very result that the
  payload without that field gives.
\<close>

theorem create_accepts_iff_truthy:
  "(status (fst (post_gem now pk newGem s)) = 400) =
     (\<not> (truthy (property newGem ''title'') \<and> truthy (property newGem ''description'')
         \<and> truthy (property newGem ''category'')))
   \<and> (\<not> (truthy (property newGem ''title'') \<and> truthy (property newGem ''description'')
         \<and> truthy (property newGem ''category'')) \<longrightarrow>
       post_gem now pk newGem s =
         (reply 400 (message ''Missing required gem fields (title, description, category)''), s))
   \<and> (k \<in> {''title'', ''description'', ''category''}
        \<and> property newGem k \<in> {Some (JStr []), Some (JNum 0), Some (JBool False), Some JNull} \<longrightarrow>
       post_gem now pk newGem s = post_gem now pk (AList.delete k newGem) s)"
proof -
  have a: "status (fst (post_gem now pk newGem s)) \<noteq> 400"
    if "truthy (property newGem ''title'')" "truthy (property newGem ''description'')"
      "truthy (property newGem ''category'')"
    using that
    by (simp add: post_gem_accepted reply_def split: prod.splits sum.splits)
  have b: "post_gem now pk newGem s =
         (reply 400 (message ''Missing required gem fields (title, description, category)''), s)"
    if "\<not> (truthy (property newGem ''title'') \<and> truthy (property newGem ''description'')
         \<and> truthy (property newGem ''category''))"
    using that by (auto simp: post_gem_def)
  have c: "post_gem now pk newGem s = post_gem now pk (AList.delete k newGem) s"
    if "k \<in> {''title'', ''description'', ''category''}"
      "property newGem k \<in> {Some (JStr []), Some (JNum 0), Some (JBool False), Some JNull}"
  proof -
    from that have "\<not> truthy (property newGem k)" by auto
    with that(1) have 1: "post_gem now pk newGem s =
         (reply 400 (message ''Missing required gem fields (title, description, category)''), s)"
      by (auto simp: post_gem_def)
    have "\<not> truthy (property (AList.delete k newGem) k)" by (simp add: property_delete)
    with that(1) have "post_gem now pk (AList.delete k newGem) s =
         (reply 400 (message ''Missing required gem fields (title, description, category)''), s)"
      by (auto simp: post_gem_def)
    with 1 show ?thesis by simp
  qed
  from a b c show ?thesis by (auto simp: reply_def)
qed

theorem create_accepts_iff_truthy_witness:
  "status (fst (post_gem 1700000000000 beach_id
      [(''title'', JNum 0), (''description'', JStr ''Secluded cove''), (''category'', JStr ''Nature'')]
      empty_db)) = 400
   \<and> post_gem 1700000000000 beach_id
      [(''title'', JNum 0), (''description'', JStr ''Secluded cove''), (''category'', JStr ''Nature'')]
      empty_db
     = post_gem 1700000000000 beach_id
      [(''description'', JStr ''Secluded cove''), (''category'', JStr ''Nature'')] empty_db
   \<and> status (fst (post_gem 1700000000000 beach_id
      [(''title'', JNum (1 / 2)), (''description'', JStr ''Secluded cove''),
       (''category'', JStr ''Nature'')] empty_db)) \<noteq> 400"
proof -
  from create_accepts_iff_truthy [where now = 1700000000000 and pk = beach_id and s = empty_db
      and k = "''title''" and newGem =
      "[(''title'', JNum 0), (''description'', JStr ''Secluded cove''), (''category'', JStr ''Nature'')]"]
  have 1: "status (fst (post_gem 1700000000000 beach_id
      [(''title'', JNum 0), (''description'', JStr ''Secluded cove''), (''category'', JStr ''Nature'')]
      empty_db)) = 400
   \<and> post_gem 1700000000000 beach_id
      [(''title'', JNum 0), (''description'', JStr ''Secluded cove''), (''category'', JStr ''Nature'')]
      empty_db
     = post_gem 1700000000000 beach_id
      [(''description'', JStr ''Secluded cove''), (''category'', JStr ''Nature'')] empty_db"
    by (auto simp: property_def reply_def)
  from create_accepts_iff_truthy [where now = 1700000000000 and pk = beach_id and s = empty_db
      and k = "''title''" and newGem =
      "[(''title'', JNum (1 / 2)), (''description'', JStr ''Secluded cove''),
       (''category'', JStr ''Nature'')]"]
  have 2: "status (fst (post_gem 1700000000000 beach_id
      [(''title'', JNum (1 / 2)), (''description'', JStr ''Secluded cove''),
       (''category'', JStr ''Nature'')] empty_db)) \<noteq> 400"
    by (simp add: property_def)
  from 1 2 show ?thesis by blast
qed





section \<open>Update\<close>






text \<open>
  C9, as the code has it. The identifier is well formed and \<open>d\<close> is the first record
  with it; the body has plain field names and the store answers the call. When every
  field the body supplies (its \<^verbatim>\<open>_id\<close> apart, which is dropped) has in \<open>d\<close> the value the
  body gives it, the update answers 200 with the "no changes" message, the collection is
  unchanged, and fetching the same identifier afterwards answers 200 with \<open>d\<close>. A JSON
  value is never equal to a stored date or identifier: when the body supplies a field
  that \<open>d\<close> holds as a \<^verbatim>\<open>Date\<close> or an \<^verbatim>\<open>ObjectId\<close>, as \<open>submissionDate\<close> is, the update
  answers "updated" and the record takes the body's value there.
\<close>

theorem update_identical_idempotent:
  assumes "ObjectId_isValid gemId"
    and "find (has_id (ObjectId_new gemId)) (hidden_gems s) = Some d"
    and "plain_body updatedGem"
    and "\<not> store_raises s (UpdateOne (ObjectId_new gemId) (AList.delete ''_id'' updatedGem))"
  shows "((\<forall>(k, v) \<in> set updatedGem. k \<noteq> ''_id'' \<longrightarrow> property d k = Some v) \<longrightarrow>
            fst (put_gem gemId updatedGem s) =
              reply 200 (message ''No changes made to the hidden gem (data was identical)'')
          \<and> hidden_gems (snd (put_gem gemId updatedGem s)) = hidden_gems s
          \<and> (\<not> store_raises (snd (put_gem gemId updatedGem s)) (FindOne (ObjectId_new gemId)) \<longrightarrow>
               fst (get_gem gemId (snd (put_gem gemId updatedGem s))) = reply 200 (JObj d)))
       \<and> ((k0, v0) \<in> set updatedGem \<and> k0 \<noteq> ''_id'' \<and> is_json v0
            \<and> (property d k0 = Some (JDate t) \<or> property d k0 = Some (JOid h)) \<longrightarrow>
            fst (put_gem gemId updatedGem s) = reply 200 (message ''Hidden gem updated successfully'')
          \<and> (\<exists>before after d1.
                hidden_gems s = before @ d # after
              \<and> hidden_gems (snd (put_gem gemId updatedGem s)) = before @ d1 # after
              \<and> property d1 k0 = Some v0))"
proof (intro conjI impI)
  from assms(2) obtain before after
    where e: "List.extract (has_id (ObjectId_new gemId)) (hidden_gems s) = Some (before, d, after)"
    by (auto simp: find_Some_extract)
  then have h: "hidden_gems s = before @ d # after" by (simp add: extract_Some_iff)
  note put = put_gem_plain_matched [OF assms(1,3,4) e]
  have j: "js_object updatedGem" using assms(3) by (rule plain_bodyD)
  {
    assume a: "\<forall>(k, v) \<in> set updatedGem. k \<noteq> ''_id'' \<longrightarrow> property d k = Some v"
    have same: "set_fields (AList.delete ''_id'' updatedGem) d = d"
      using a by (rule stripped_same)
    show p: "fst (put_gem gemId updatedGem s) =
           reply 200 (message ''No changes made to the hidden gem (data was identical)'')"
      by (simp add: put same)
    show u: "hidden_gems (snd (put_gem gemId updatedGem s)) = hidden_gems s"
      by (simp add: put same h)
    assume q: "\<not> store_raises (snd (put_gem gemId updatedGem s)) (FindOne (ObjectId_new gemId))"
    have "find (has_id (ObjectId_new gemId)) (hidden_gems (snd (put_gem gemId updatedGem s))) = Some d"
      by (simp add: u assms(2))
    then show "fst (get_gem gemId (snd (put_gem gemId updatedGem s))) = reply 200 (JObj d)"
      by (simp add: get_gem_found [OF assms(1) q])
  }
  {
    assume a: "(k0, v0) \<in> set updatedGem \<and> k0 \<noteq> ''_id'' \<and> is_json v0
            \<and> (property d k0 = Some (JDate t) \<or> property d k0 = Some (JOid h))"
    let ?d1 = "set_fields (AList.delete ''_id'' updatedGem) d"
    from a have "property d k0 \<noteq> Some v0" by auto
    with a j have changed: "?d1 \<noteq> d" by (intro stripped_changed) auto
    show "fst (put_gem gemId updatedGem s) = reply 200 (message ''Hidden gem updated successfully'')"
      by (simp add: put changed)
    from a j have "property updatedGem k0 = Some v0" by (simp add: property_def js_object_def)
    moreover from a have "k0 \<in> fst ` set updatedGem" by (auto intro: rev_image_eqI)
    ultimately have "property ?d1 k0 = Some v0" using a j by (simp add: property_stripped)
    moreover have "hidden_gems (snd (put_gem gemId updatedGem s)) = before @ ?d1 # after"
      by (simp add: put)
    ultimately show "\<exists>before after d1.
                hidden_gems s = before @ d # after
              \<and> hidden_gems (snd (put_gem gemId updatedGem s)) = before @ d1 # after
              \<and> property d1 k0 = Some v0"
      using h by blast
  }
qed


lemma updateOne_faults: "faults (snd (updateOne i u s)) = faults s"
  by (simp add: updateOne_def Let_def called_def split: option.splits sum.splits prod.splits)

lemma put_gem_faults: "faults (snd (put_gem gemId updatedGem s)) = faults s"
  by (simp add: put_gem_state updateOne_faults)

lemma beach_db_faults: "faults beach_db = (\<lambda>h c. False)"
  by (simp add: ev)

lemma plain_beach: "plain_body beach"
  by (simp add: plain_body_def js_object_def plain_key_def bad_component_def beach_def)

theorem update_identical_idempotent_witness:
  "fst (put_gem beach_id beach beach_db) =
     reply 200 (message ''No changes made to the hidden gem (data was identical)'')
   \<and> fst (get_gem beach_id (snd (put_gem beach_id beach beach_db))) = reply 200 (JObj stored_beach)
   \<and> fst (put_gem beach_id [(''submissionDate'', JStr ''2023-11-14T22:13:20.000Z'')] beach_db) =
     reply 200 (message ''Hidden gem updated successfully'')"
proof -
  have i: "\<forall>(k, v) \<in> set beach. k \<noteq> ''_id'' \<longrightarrow> property stored_beach k = Some v"
    by (simp add: beach_def stored_beach_def property_def)
  have q: "\<not> store_raises (snd (put_gem beach_id beach beach_db)) (FindOne (ObjectId_new beach_id))"
    by (simp add: store_raises_def put_gem_faults beach_db_faults)
  from update_identical_idempotent [OF beach_id_valid(1) find_beach plain_beach beach_db_quiet,
      where ?k0.0 = "[]" and ?v0.0 = JNull and t = 0 and h = "[]"] i q
  have 1: "fst (put_gem beach_id beach beach_db) =
     reply 200 (message ''No changes made to the hidden gem (data was identical)'')
   \<and> fst (get_gem beach_id (snd (put_gem beach_id beach beach_db))) = reply 200 (JObj stored_beach)"
    by simp
  have p: "plain_body [(''submissionDate'', JStr ''2023-11-14T22:13:20.000Z'')]"
    by (simp add: plain_body_def js_object_def plain_key_def bad_component_def)
  have d: "property stored_beach ''submissionDate'' = Some (JDate 1700000000000)"
    by (simp add: stored_beach_def property_def)
  from update_identical_idempotent [OF beach_id_valid(1) find_beach p beach_db_quiet,
      where ?k0.0 = "''submissionDate''" and ?v0.0 = "JStr ''2023-11-14T22:13:20.000Z''"
      and t = 1700000000000 and h = "[]"] d
  have 2: "fst (put_gem beach_id [(''submissionDate'', JStr ''2023-11-14T22:13:20.000Z'')] beach_db) =
     reply 200 (message ''Hidden gem updated successfully'')"
    by simp
  from 1 2 show ?thesis by simp
qed

text \<open>
  C9 as stated fails: \<open>beach_json\<close> is the record of the scenario as the fetch route
  sends it in JSON, the date as its ISO string and the identifier as its digits. Sent
  back as the body of an update it is answered "updated", not "no changes", and the
  record fetched afterwards has the string where the date was.
\<close>

theorem update_identical_idempotent_counterexample:
  "fst (get_gem beach_id beach_db) =
     reply 200 (JObj [(''_id'', JOid ''65a1b2c3d4e5f60718293a4b''),
                      (''title'', JStr ''Hidden Beach''), (''description'', JStr ''Secluded cove''),
                      (''category'', JStr ''Nature''), (''submissionDate'', JDate 1700000000000)])
   \<and> beach_json =
       [(''_id'', JStr ''65a1b2c3d4e5f60718293a4b''),
        (''title'', JStr ''Hidden Beach''), (''description'', JStr ''Secluded cove''),
        (''category'', JStr ''Nature''), (''submissionDate'', JStr ''2023-11-14T22:13:20.000Z'')]
   \<and> fst (put_gem beach_id beach_json beach_db) =
       reply 200 (message ''Hidden gem updated successfully'')
   \<and> fst (get_gem beach_id (snd (put_gem beach_id beach_json beach_db))) =
     reply 200 (JObj [(''_id'', JOid ''65a1b2c3d4e5f60718293a4b''),
                      (''title'', JStr ''Hidden Beach''), (''description'', JStr ''Secluded cove''),
                      (''category'', JStr ''Nature''),
                      (''submissionDate'', JStr ''2023-11-14T22:13:20.000Z'')])"
  by (simp add: ev beach_json_def)

text \<open>
  C7. An update never reassigns an identifier: the \<^verbatim>\<open>_id\<close> of every stored record, in
  order, is the same after \<open>put_gem\<close> as before, whatever the body. When the identifier
  of the path is well formed, the one driver call the route makes is an \<^verbatim>\<open>updateOne\<close>
  whose \<^verbatim>\<open>$set\<close> document has no \<^verbatim>\<open>_id\<close> and agrees with the body on every other field.
  Over any sequence of creations and updates the list of identifiers only grows at its
  end: each record keeps the identifier it had when it was created.
\<close>

theorem ids_never_reassigned:
  "gem_ids (snd (put_gem gemId updatedGem s)) = gem_ids s
   \<and> (ObjectId_isValid gemId \<longrightarrow>
        (\<exists>u. calls (snd (put_gem gemId updatedGem s)) = calls s @ [UpdateOne (ObjectId_new gemId) u]
           \<and> ''_id'' \<notin> fst ` set u
           \<and> (\<forall>k. k \<noteq> ''_id'' \<longrightarrow> property u k = property updatedGem k)))
   \<and> prefix (gem_ids s) (gem_ids (fold handle rs s))"
proof (intro conjI impI)
  show "gem_ids (snd (put_gem gemId updatedGem s)) = gem_ids s" by (rule put_gem_keeps_ids)
  show "prefix (gem_ids s) (gem_ids (fold handle rs s))" by (rule fold_handle_keeps_ids)
  assume "ObjectId_isValid gemId"
  then have "calls (snd (put_gem gemId updatedGem s)) =
           calls s @ [UpdateOne (ObjectId_new gemId) (AList.delete ''_id'' updatedGem)]"
    by (rule put_gem_call)
  moreover have "''_id'' \<notin> fst ` set (AList.delete ''_id'' updatedGem)"
    by (simp add: keys_delete)
  moreover have "\<forall>k. k \<noteq> ''_id'' \<longrightarrow> property (AList.delete ''_id'' updatedGem) k = property updatedGem k"
    by (simp add: property_delete)
  ultimately show "\<exists>u. calls (snd (put_gem gemId updatedGem s)) = calls s @ [UpdateOne (ObjectId_new gemId) u]
           \<and> ''_id'' \<notin> fst ` set u
           \<and> (\<forall>k. k \<noteq> ''_id'' \<longrightarrow> property u k = property updatedGem k)"
    by blast
qed

theorem ids_never_reassigned_witness:
  "ObjectId_isValid beach_id
   \<and> gem_ids beach_db = [Some (JOid beach_id)]
   \<and> gem_ids (snd (put_gem beach_id [(''_id'', JStr ''mine''), (''category'', JStr ''Parks'')] beach_db))
       = [Some (JOid beach_id)]
   \<and> prefix [Some (JOid beach_id)]
       (gem_ids (fold handle
          [Update beach_id [(''_id'', JStr ''mine''), (''category'', JStr ''Parks'')],
           Create 1700000000001 other_id beach,
           Update other_id [(''_id'', JOid beach_id)]] beach_db))"
proof -
  have g: "gem_ids beach_db = [Some (JOid beach_id)]"
    by (simp add: gem_ids_def beach_db_gems stored_beach_def property_def beach_id_def)
  from ids_never_reassigned [where gemId = beach_id and s = beach_db
      and updatedGem = "[(''_id'', JStr ''mine''), (''category'', JStr ''Parks'')]" and rs =
      "[Update beach_id [(''_id'', JStr ''mine''), (''category'', JStr ''Parks'')],
           Create 1700000000001 other_id beach,
           Update other_id [(''_id'', JOid beach_id)]]"]
  show ?thesis by (simp add: g beach_id_valid)
qed

section \<open>The submission date\<close>

text \<open>
  C3, as the code has it. A successful creation appends one record whose
  \<open>submissionDate\<close> is the server's \<open>now\<close>, whatever the payload carried, and a creation
  that does not answer 201 stores nothing. Fetching changes no record and deleting
  leaves the remaining records as they were. An update none of whose keys is
  \<open>submissionDate\<close> or a path into it leaves the \<open>submissionDate\<close> of every record as it
  was. An update whose body has plain field names and a \<open>submissionDate\<close> gives its value
  to the record it matches, when the store answers the call: the route deletes only
  \<^verbatim>\<open>_id\<close> from the body.
\<close>

theorem submissionDate_stamped_and_kept:
  "(status (fst (post_gem now pk newGem s)) = 201 \<longrightarrow>
      (\<exists>doc. hidden_gems (snd (post_gem now pk newGem s)) = hidden_gems s @ [doc]
            \<and> property doc ''submissionDate'' = Some (JDate now)))
   \<and> (status (fst (post_gem now pk newGem s)) \<noteq> 201 \<longrightarrow>
        hidden_gems (snd (post_gem now pk newGem s)) = hidden_gems s)
   \<and> ((\<forall>k \<in> fst ` set updatedGem. top_field k \<noteq> ''submissionDate'') \<longrightarrow>
        gem_dates (snd (put_gem gemId updatedGem s)) = gem_dates s)
   \<and> (plain_body updatedGem \<and> property updatedGem ''submissionDate'' = Some v
        \<and> ObjectId_isValid gemId
        \<and> \<not> store_raises s (UpdateOne (ObjectId_new gemId) (AList.delete ''_id'' updatedGem))
        \<and> find (has_id (ObjectId_new gemId)) (hidden_gems s) = Some d \<longrightarrow>
        (\<exists>before after d1. hidden_gems s = before @ d # after
           \<and> hidden_gems (snd (put_gem gemId updatedGem s)) = before @ d1 # after
           \<and> property d1 ''submissionDate'' = Some v))
   \<and> hidden_gems (snd (get_gem gemId s)) = hidden_gems s
   \<and> subseq (hidden_gems (snd (delete_gem gemId s))) (hidden_gems s)"
proof (intro conjI impI)
  assume "status (fst (post_gem now pk newGem s)) = 201"
  then show "\<exists>doc. hidden_gems (snd (post_gem now pk newGem s)) = hidden_gems s @ [doc]
            \<and> property doc ''submissionDate'' = Some (JDate now)"
    using post_gem_gems [of now pk newGem s] by auto
next
  assume "status (fst (post_gem now pk newGem s)) \<noteq> 201"
  then show "hidden_gems (snd (post_gem now pk newGem s)) = hidden_gems s"
    using post_gem_gems [of now pk newGem s] by auto
next
  assume a: "\<forall>k \<in> fst ` set updatedGem. top_field k \<noteq> ''submissionDate''"
  have "property d1 ''submissionDate'' = property d ''submissionDate''"
    if "apply_set (AList.delete ''_id'' updatedGem) d = Inr d1" for d d1
    using that
  proof (rule apply_set_other)
    show "\<forall>k \<in> fst ` set (AList.delete ''_id'' updatedGem). top_field k \<noteq> ''submissionDate''"
      using a by (auto simp: keys_delete)
  qed
  then show "gem_dates (snd (put_gem gemId updatedGem s)) = gem_dates s"
    using put_gem_shape [of gemId updatedGem s] by (auto simp: gem_dates_def)
next
  assume a: "plain_body updatedGem \<and> property updatedGem ''submissionDate'' = Some v
        \<and> ObjectId_isValid gemId
        \<and> \<not> store_raises s (UpdateOne (ObjectId_new gemId) (AList.delete ''_id'' updatedGem))
        \<and> find (has_id (ObjectId_new gemId)) (hidden_gems s) = Some d"
  then obtain before after
    where e: "List.extract (has_id (ObjectId_new gemId)) (hidden_gems s) = Some (before, d, after)"
    by (auto simp: find_Some_extract)
  then have h: "hidden_gems s = before @ d # after" by (simp add: extract_Some_iff)
  from a have v: "ObjectId_isValid gemId" and p: "plain_body updatedGem"
    and q: "\<not> store_raises s (UpdateOne (ObjectId_new gemId) (AList.delete ''_id'' updatedGem))"
    by simp_all
  have j: "js_object updatedGem" using p by (rule plain_bodyD)
  let ?d1 = "set_fields (AList.delete ''_id'' updatedGem) d"
  from a have "''submissionDate'' \<in> fst ` set updatedGem"
    by (auto simp: property_def dest: map_of_SomeD intro: rev_image_eqI)
  with a j have "property ?d1 ''submissionDate'' = Some v" by (simp add: property_stripped)
  moreover have "hidden_gems (snd (put_gem gemId updatedGem s)) = before @ ?d1 # after"
    by (simp add: put_gem_plain_matched [OF v p q e])
  ultimately show "\<exists>before after d1. hidden_gems s = before @ d # after
           \<and> hidden_gems (snd (put_gem gemId updatedGem s)) = before @ d1 # after
           \<and> property d1 ''submissionDate'' = Some v"
    using h by blast
next
  show "hidden_gems (snd (get_gem gemId s)) = hidden_gems s" by (rule get_gem_gems)
  show "subseq (hidden_gems (snd (delete_gem gemId s))) (hidden_gems s)" by (rule delete_gem_gems)
qed

text \<open>
  C3 as stated fails: the record of the scenario is created with the server's time as
  its \<open>submissionDate\<close>; an update whose body is
  \<^verbatim>\<open>{submissionDate: "1999-12-31T00:00:00.000Z"}\<close> answers 200 "updated", and fetching the
  record afterwards shows the client's string in place of the server's date.
\<close>

theorem submissionDate_counterexample:
  "fst (get_gem beach_id beach_db) =
     reply 200 (JObj [(''_id'', JOid ''65a1b2c3d4e5f60718293a4b''),
                   (''title'', JStr ''Hidden Beach''), (''description'', JStr ''Secluded cove''),
                   (''category'', JStr ''Nature''), (''submissionDate'', JDate 1700000000000)])
   \<and> fst (put_gem beach_id [(''submissionDate'', JStr ''1999-12-31T00:00:00.000Z'')] beach_db) =
       reply 200 (message ''Hidden gem updated successfully'')
   \<and> fst (get_gem beach_id
        (snd (put_gem beach_id [(''submissionDate'', JStr ''1999-12-31T00:00:00.000Z'')] beach_db))) =
     reply 200 (JObj [(''_id'', JOid ''65a1b2c3d4e5f60718293a4b''),
                   (''title'', JStr ''Hidden Beach''), (''description'', JStr ''Secluded cove''),
                   (''category'', JStr ''Nature''),
                   (''submissionDate'', JStr ''1999-12-31T00:00:00.000Z'')])"
  by (simp add: ev)

theorem submissionDate_stamped_and_kept_witness:
  "status (fst (post_gem 1700000000000 beach_id
       ((''submissionDate'', JStr ''1999-12-31T00:00:00.000Z'') # beach) empty_db)) = 201
   \<and> (\<exists>doc. hidden_gems (snd (post_gem 1700000000000 beach_id
                 ((''submissionDate'', JStr ''1999-12-31T00:00:00.000Z'') # beach) empty_db)) = [doc]
          \<and> property doc ''submissionDate'' = Some (JDate 1700000000000))
   \<and> gem_dates (snd (put_gem beach_id [(''category'', JStr ''Parks'')] beach_db)) =
       [Some (JDate 1700000000000)]
   \<and> (\<exists>before after d1.
         hidden_gems (snd (put_gem beach_id
            [(''submissionDate'', JStr ''1999-12-31T00:00:00.000Z'')] beach_db)) = before @ d1 # after
         \<and> property d1 ''submissionDate'' = Some (JStr ''1999-12-31T00:00:00.000Z''))"
proof -
  have p: "status (fst (post_gem 1700000000000 beach_id
       ((''submissionDate'', JStr ''1999-12-31T00:00:00.000Z'') # beach) empty_db)) = 201"
    by (simp add: ev reply_def)
  have g: "gem_dates beach_db = [Some (JDate 1700000000000)]"
    by (simp add: gem_dates_def beach_db_gems stored_beach_def property_def)
  have t: "top_field ''category'' \<noteq> ''submissionDate''"
    by (simp add: top_field_plain)
  have b: "plain_body [(''submissionDate'', JStr ''1999-12-31T00:00:00.000Z'')]"
    by (simp add: plain_body_def js_object_def plain_key_def bad_component_def)
  from submissionDate_stamped_and_kept [where now = 1700000000000 and pk = beach_id
      and newGem = "(''submissionDate'', JStr ''1999-12-31T00:00:00.000Z'') # beach"
      and s = empty_db] p
  have 1: "\<exists>doc. hidden_gems (snd (post_gem 1700000000000 beach_id
                 ((''submissionDate'', JStr ''1999-12-31T00:00:00.000Z'') # beach) empty_db)) = [doc]
          \<and> property doc ''submissionDate'' = Some (JDate 1700000000000)"
    by (simp add: empty_db_def)
  from submissionDate_stamped_and_kept [where s = beach_db and gemId = beach_id
      and updatedGem = "[(''category'', JStr ''Parks'')]"] t
  have 2: "gem_dates (snd (put_gem beach_id [(''category'', JStr ''Parks'')] beach_db)) =
       [Some (JDate 1700000000000)]"
    by (simp add: g)
  from submissionDate_stamped_and_kept [where s = beach_db and gemId = beach_id
      and updatedGem = "[(''submissionDate'', JStr ''1999-12-31T00:00:00.000Z'')]"
      and v = "JStr ''1999-12-31T00:00:00.000Z''" and d = stored_beach] find_beach b
  have 3: "\<exists>before after d1.
         hidden_gems (snd (put_gem beach_id
            [(''submissionDate'', JStr ''1999-12-31T00:00:00.000Z'')] beach_db)) = before @ d1 # after
         \<and> property d1 ''submissionDate'' = Some (JStr ''1999-12-31T00:00:00.000Z'')"
    by (simp add: property_def beach_id_valid beach_db_quiet) blast
  from p 1 2 3 show ?thesis by simp
qed

section \<open>The scenario of the specification\<close>

text \<open>
  Create the hidden beach; fetch it; change its category; delete it; fetch it again.
\<close>

lemma scenario:
  "fst (post_gem 1700000000000 beach_id beach empty_db) =
     reply 201 (JObj [(''message'', JStr ''Hidden gem added successfully''),
                      (''insertedId'', JOid beach_id),
                      (''newGem'', JObj (beach @ [(''submissionDate'', JDate 1700000000000),
                                                  (''_id'', JOid beach_id)]))])"
  "fst (get_gem beach_id beach_db) = reply 200 (JObj stored_beach)"
  "fst (put_gem beach_id [(''category'', JStr ''Nature & Parks'')] beach_db) =
     reply 200 (message ''Hidden gem updated successfully'')"
  "fst (delete_gem beach_id (snd (put_gem beach_id [(''category'', JStr ''Nature & Parks'')] beach_db))) =
     reply 200 (message ''Hidden gem deleted successfully'')"
  "fst (get_gem beach_id (snd (delete_gem beach_id
      (snd (put_gem beach_id [(''category'', JStr ''Nature & Parks'')] beach_db))))) =
     reply 404 (message ''Hidden gem not found'')"
  by (simp_all add: ev stored_beach_def)

end
